theory Spec2Isabelle
  imports Complex_Main
begin

section \<open>The plugin graph runtime of local\_llm (plugin.py, plugins/chat\_query.py)\<close>

subsection \<open>Data model\<close>

text \<open>
  Python exceptions raised by the modelled code. \<open>TypeError\<close> and \<open>ValueError\<close> carry
  their message, \<open>AttributeError\<close> the name of the missing attribute, and
  \<open>ExternalError\<close> stands for an exception raised by a collaborator that is not part
  of these two files.
\<close>

datatype error =
    NotImplementedError
  | TypeError string
  | ValueError string
  | AttributeError string
  | IndexError
  | ExternalError string

text \<open>
  Objects live in a heap and are referred to by reference (\<open>nid\<close>). A Python value
  flowing through the graph is a \<open>'a option\<close>: \<open>None\<close> is Python's \<open>None\<close>.
\<close>

type_synonym nid = nat

text \<open>
  The attributes of a \<open>Plugin\<close> instance. \<open>queue\<close> and \<open>event\<close> are attributes that
  \<open>__init__\<close> creates only when \<open>threaded\<close> is true, so each is optional: \<open>None\<close> means
  that the attribute does not exist and reading it raises \<open>AttributeError\<close>.
  \<open>classes\<close> is the class of the object followed by its base classes (what
  \<open>isinstance\<close> consults), and \<open>process\<close> is the \<open>process\<close> method the object's class
  provides, as the value it returns or the exception it raises.
\<close>

record 'a plugin =
  relay :: bool
  threaded :: bool
  outputs :: "nid list"
  queue :: "'a option list option"
  event :: "bool option"
  classes :: "string list"
  process :: "'a option \<Rightarrow> error + 'a option"

text \<open>
  The log of method calls: which \<open>input\<close> and \<open>process\<close> calls were made, on which
  object, with which argument, in the order they were made.
\<close>

datatype 'a call = Input nid "'a option" | Process nid "'a option"

record 'a world =
  heap :: "nid \<Rightarrow> 'a plugin"
  next_id :: nid
  calls :: "'a call list"

definition put_plugin :: "nid \<Rightarrow> 'a plugin \<Rightarrow> 'a world \<Rightarrow> 'a world" where
  "put_plugin n p w = w\<lparr>heap := (heap w)(n := p)\<rparr>"

definition log_call :: "'a call \<Rightarrow> 'a world \<Rightarrow> 'a world" where
  "log_call c w = w\<lparr>calls := calls w @ [c]\<rparr>"

definition isinstance :: "'a world \<Rightarrow> nid \<Rightarrow> string \<Rightarrow> bool" where
  "isinstance w n ty = (ty \<in> set (classes (heap w n)))"

subsection \<open>Construction\<close>

text \<open>
  \<open>Plugin.__init__(relay, threaded)\<close>, for an object of the class with bases \<open>cls\<close>
  and \<open>process\<close> method \<open>proc\<close>. The new object is allocated at the next free
  reference. The queue and the event exist only for a threaded plugin.
\<close>

definition Plugin_init ::
  "bool \<Rightarrow> bool \<Rightarrow> string list \<Rightarrow> ('a option \<Rightarrow> error + 'a option) \<Rightarrow> 'a world \<Rightarrow> nid \<times> 'a world" where
  "Plugin_init rel thr cls proc w =
     (next_id w,
      (put_plugin (next_id w)
         \<lparr>relay = rel, threaded = thr, outputs = [],
          queue = (if thr then Some [] else None),
          event = (if thr then Some False else None),
          classes = cls, process = proc\<rparr> w)
       \<lparr>next_id := Suc (next_id w)\<rparr>)"

text \<open>The base class's \<open>process\<close>: it raises \<open>NotImplementedError\<close>.\<close>

definition Plugin_process :: "'a option \<Rightarrow> error + 'a option" where
  "Plugin_process item = Inl NotImplementedError"

text \<open>
  Modelled from the spec: the class \<open>Callback\<close> (imported from \<open>local_llm.plugins\<close>, not
  among the source files). Section 4.2: it wraps a plain function as a node, its
  \<open>process\<close> delegates directly to the function, and it inherits the base behaviour,
  threaded by default, relay off by default.
\<close>

definition Callback :: "('a option \<Rightarrow> error + 'a option) \<Rightarrow> 'a world \<Rightarrow> nid \<times> 'a world" where
  "Callback f w = Plugin_init False True [''Callback'', ''Plugin''] f w"

subsection \<open>Connecting plugins: \<open>Plugin.add\<close>\<close>

text \<open>
  The \<open>plugin\<close> argument of \<open>add\<close>: a \<open>Plugin\<close> instance, a callable that is not a
  plugin, or any other value, of which only the name of its type matters.
\<close>

datatype 'a pyarg =
    PluginObj nid
  | Callable "'a option \<Rightarrow> error + 'a option"
  | NonCallable string

definition add_type_error :: "'a world \<Rightarrow> nid \<Rightarrow> string \<Rightarrow> error" where
  "add_type_error w self ty =
     TypeError (hd (classes (heap w self) @ [''Plugin''])
        @ ''.add() expects either a Plugin instance or a callable function (was '' @ ty @ '')'')"

text \<open>The message of the \<open>ValueError\<close>: \<open>mode should either be 'input' or 'output'\<close>.\<close>

definition add_mode_error :: error where
  "add_mode_error =
     ValueError (''mode should either be '' @ [CHR 0x27] @ ''input'' @ [CHR 0x27]
        @ '' or '' @ [CHR 0x27] @ ''output'' @ [CHR 0x27])"

definition append_output :: "nid \<Rightarrow> nid \<Rightarrow> 'a world \<Rightarrow> 'a world" where
  "append_output src dst w =
     put_plugin src ((heap w src)\<lparr>outputs := outputs (heap w src) @ [dst]\<rparr>) w"

definition Plugin_add :: "nid \<Rightarrow> 'a pyarg \<Rightarrow> string \<Rightarrow> 'a world \<Rightarrow> (error + nid) \<times> 'a world" where
  "Plugin_add self plugin mode w =
     (case plugin of
        NonCallable ty \<Rightarrow> (Inl (add_type_error w self ty), w)
      | _ \<Rightarrow>
         (let (p, w1) = (case plugin of PluginObj p \<Rightarrow> (p, w) | Callable f \<Rightarrow> Callback f w)
          in if mode = ''output'' then (Inr self, append_output self p w1)
             else if mode = ''input'' then (Inr self, append_output p self w1)
             else (Inl add_mode_error, w1)))"

subsection \<open>Data flow: \<open>input\<close>, \<open>output\<close>, \<open>update\<close>\<close>

text \<open>
  \<open>input\<close>, \<open>output\<close> and \<open>update\<close> call each other through the graph, and \<open>update\<close>
  loops until the queue is empty, which a plugin that outputs to itself never reaches.
  The functions therefore take fuel, one unit per call and per loop iteration, and
  return \<open>None\<close> when it runs out. A result \<open>Some (exn, w)\<close> is the world after the
  call, with the exception that left it (\<open>None\<close> for a normal return).

  \<open>output_all\<close> is the \<open>for\<close> loop of \<open>output\<close> over \<open>self.outputs\<close>. No call made
  from the loop changes an \<open>outputs\<close> list, so it runs over the list as read at the
  start.
\<close>

type_synonym 'a outcome = "(error option \<times> 'a world) option"

definition enqueue :: "nid \<Rightarrow> 'a option \<Rightarrow> 'a option list \<Rightarrow> 'a world \<Rightarrow> 'a world" where
  "enqueue n item q w = put_plugin n ((heap w n)\<lparr>queue := Some (q @ [item])\<rparr>) w"

definition set_event :: "nid \<Rightarrow> 'a world \<Rightarrow> 'a world" where
  "set_event n w = put_plugin n ((heap w n)\<lparr>event := Some True\<rparr>) w"

definition dequeue :: "nid \<Rightarrow> 'a option list \<Rightarrow> 'a world \<Rightarrow> 'a world" where
  "dequeue n rest w = put_plugin n ((heap w n)\<lparr>queue := Some rest\<rparr>) w"

text \<open>Sequencing: an exception, or running out of fuel, ends the computation.\<close>

definition and_then :: "'a outcome \<Rightarrow> ('a world \<Rightarrow> 'a outcome) \<Rightarrow> 'a outcome" where
  "and_then r f =
     (case r of None \<Rightarrow> None | Some (Some e, w) \<Rightarrow> Some (Some e, w) | Some (None, w) \<Rightarrow> f w)"

function Plugin_input :: "nat \<Rightarrow> nid \<Rightarrow> 'a option \<Rightarrow> int \<Rightarrow> 'a world \<Rightarrow> 'a outcome"
  and Plugin_output :: "nat \<Rightarrow> nid \<Rightarrow> 'a option \<Rightarrow> int \<Rightarrow> 'a world \<Rightarrow> 'a outcome"
  and output_all :: "nat \<Rightarrow> nid list \<Rightarrow> 'a option \<Rightarrow> 'a world \<Rightarrow> 'a outcome"
  and Plugin_update :: "nat \<Rightarrow> nid \<Rightarrow> 'a world \<Rightarrow> 'a outcome"
where
  "Plugin_input 0 self item channel w = None"
| "Plugin_input (Suc k) self item channel w =
     (let w1 = log_call (Input self item) w in
      if threaded (heap w1 self) then
        (case queue (heap w1 self) of
           None \<Rightarrow> Some (Some (AttributeError ''queue''), w1)
         | Some q \<Rightarrow>
            (let w2 = enqueue self item q w1 in
             case event (heap w2 self) of
               None \<Rightarrow> Some (Some (AttributeError ''event''), w2)
             | Some _ \<Rightarrow> Some (None, set_event self w2)))
      else Plugin_update k self w1)"
| "Plugin_output 0 self out channel w = None"
| "Plugin_output (Suc k) self out channel w =
     (case out of
        None \<Rightarrow> Some (None, w)
      | Some _ \<Rightarrow>
         if channel \<ge> 0 then
           (if nat channel < length (outputs (heap w self))
            then Plugin_input k (outputs (heap w self) ! nat channel) out 0 w
            else Some (Some IndexError, w))
         else output_all k (outputs (heap w self)) out w)"
| "output_all 0 chans out w = None"
| "output_all (Suc k) [] out w = Some (None, w)"
| "output_all (Suc k) (output_channel # chans) out w =
     and_then (Plugin_input k output_channel out 0 w) (output_all k chans out)"
| "Plugin_update 0 self w = None"
| "Plugin_update (Suc k) self w =
     (case queue (heap w self) of
        None \<Rightarrow> Some (Some (AttributeError ''queue''), w)
      | Some [] \<Rightarrow> Some (None, w)
      | Some (item # rest) \<Rightarrow>
         (let w1 = log_call (Process self item) (dequeue self rest w) in
          case process (heap w1 self) item of
            Inl e \<Rightarrow> Some (Some e, w1)
          | Inr result \<Rightarrow>
             and_then (Plugin_output k self result (- 1) w1) (\<lambda>w2.
               if relay (heap w2 self)
               then and_then (Plugin_output k self item (- 1) w2) (Plugin_update k self)
               else Plugin_update k self w2)))"
  by pat_completeness auto
termination
  by (relation "measure (\<lambda>x. case x of Inl (Inl (k, _)) \<Rightarrow> k | Inl (Inr (k, _)) \<Rightarrow> k
        | Inr (Inl (k, _)) \<Rightarrow> k | Inr (Inr (k, _)) \<Rightarrow> k)") auto

text \<open>\<open>__call__\<close> is an alias of \<open>input\<close>.\<close>

definition Plugin_call :: "nat \<Rightarrow> nid \<Rightarrow> 'a option \<Rightarrow> int \<Rightarrow> 'a world \<Rightarrow> 'a outcome" where
  "Plugin_call k self item channel w = Plugin_input k self item channel w"

subsection \<open>Searching the graph: \<open>Plugin.find\<close>\<close>

text \<open>
  \<open>find(type)\<close> recurses through the \<open>outputs\<close> lists and does not terminate on a
  cyclic graph, so it takes fuel as well. The result \<open>Some None\<close> is the value \<open>None\<close>
  that \<open>find\<close> returns when it finds nothing, \<open>Some (Some p)\<close> is the plugin \<open>p\<close>.
  \<open>find_outputs\<close> is the \<open>for\<close> loop over \<open>self.outputs\<close>. A type is the name of a class.
\<close>

function Plugin_find :: "nat \<Rightarrow> 'a world \<Rightarrow> nid \<Rightarrow> string \<Rightarrow> nid option option"
  and find_outputs :: "nat \<Rightarrow> 'a world \<Rightarrow> nid list \<Rightarrow> string \<Rightarrow> nid option option"
where
  "Plugin_find 0 w self ty = None"
| "Plugin_find (Suc k) w self ty =
     (if isinstance w self ty then Some (Some self)
      else find_outputs k w (outputs (heap w self)) ty)"
| "find_outputs 0 w outs ty = None"
| "find_outputs (Suc k) w [] ty = Some None"
| "find_outputs (Suc k) w (out # outs) ty =
     (if isinstance w out ty then Some (Some out)
      else (case Plugin_find k w out ty of
              None \<Rightarrow> None
            | Some (Some plugin) \<Rightarrow> Some (Some plugin)
            | Some None \<Rightarrow> find_outputs k w outs ty))"
  by pat_completeness auto
termination
  by (relation "measure (\<lambda>x. case x of Inl (k, _) \<Rightarrow> k | Inr (k, _) \<Rightarrow> k)") auto

text \<open>\<open>__getitem__\<close> is an alias of \<open>find\<close>.\<close>

definition Plugin_getitem :: "nat \<Rightarrow> 'a world \<Rightarrow> nid \<Rightarrow> string \<Rightarrow> nid option option" where
  "Plugin_getitem k w self ty = Plugin_find k w self ty"

text \<open>The output edges of the graph: \<open>(n, t)\<close> when \<open>t\<close> is in the \<open>outputs\<close> of \<open>n\<close>.\<close>

definition output_edges :: "'a world \<Rightarrow> (nid \<times> nid) set" where
  "output_edges w = {(n, t). t \<in> set (outputs (heap w n))}"

text \<open>
  The search as the specification words it: a depth-first search over the output graph
  that checks the node itself first, then recurses into each output edge in order, and
  stops at the first match. \<open>dfs_first w ty n r\<close> says that this search from \<open>n\<close>
  yields \<open>r\<close>.
\<close>

inductive dfs_first :: "'a world \<Rightarrow> string \<Rightarrow> nid \<Rightarrow> nid option \<Rightarrow> bool"
  and dfs_first_list :: "'a world \<Rightarrow> string \<Rightarrow> nid list \<Rightarrow> nid option \<Rightarrow> bool"
  for w :: "'a world" and ty :: string
where
  self_matches: "isinstance w n ty \<Longrightarrow> dfs_first w ty n (Some n)"
| descend: "\<not> isinstance w n ty \<Longrightarrow> dfs_first_list w ty (outputs (heap w n)) r \<Longrightarrow> dfs_first w ty n r"
| no_edges: "dfs_first_list w ty [] None"
| first_edge: "dfs_first w ty t (Some m) \<Longrightarrow> dfs_first_list w ty (t # ts) (Some m)"
| next_edge: "dfs_first w ty t None \<Longrightarrow> dfs_first_list w ty ts r \<Longrightarrow> dfs_first_list w ty (t # ts) r"

text \<open>
  \<open>found_ok w ty roots r\<close>: a result \<open>Some m\<close> is a plugin of the type that is
  reachable from one of the roots along output edges, and the result \<open>None\<close> means
  that no plugin reachable from a root along output edges has the type.
\<close>

definition found_ok :: "'a world \<Rightarrow> string \<Rightarrow> nid set \<Rightarrow> nid option \<Rightarrow> bool" where
  "found_ok w ty roots r =
     (case r of
        Some m \<Rightarrow> isinstance w m ty \<and> (\<exists>n\<in>roots. (n, m) \<in> (output_edges w)\<^sup>*)
      | None \<Rightarrow> \<forall>n\<in>roots. \<forall>m. (n, m) \<in> (output_edges w)\<^sup>* \<longrightarrow> \<not> isinstance w m ty)"

subsection \<open>What a threaded plugin does with a delivery\<close>

text \<open>
  A plugin has a mailbox when it is threaded and its queue and event exist, which is
  how \<open>__init__\<close> leaves a plugin constructed with \<open>threaded=True\<close>. \<open>deliver t v\<close> is
  the effect of \<open>t.input(v)\<close> on such a plugin: the call is logged, \<open>v\<close> is put at the
  end of the queue of \<open>t\<close> and its event is set. \<open>broadcast\<close> is that effect for every
  entry of a list of outputs in order, and nothing for the value \<open>None\<close>.
  \<open>deliveries\<close> are the calls a broadcast makes, \<open>delivered_to t\<close> selects from a log
  the values passed to \<open>t.input\<close>, and \<open>processed_by n\<close> the items passed to
  \<open>n.process\<close>. \<open>item_calls\<close> are the calls that one pass of the loop of \<open>update\<close>
  makes for one item, in the words of the specification: the \<open>process\<close> call, then the
  result to every output, then, if relay is on, the item itself to every output.
\<close>

definition has_mailbox :: "'a world \<Rightarrow> nid \<Rightarrow> bool" where
  "has_mailbox w n = (threaded (heap w n) \<and> queue (heap w n) \<noteq> None \<and> event (heap w n) \<noteq> None)"

definition deliver :: "nid \<Rightarrow> 'a option \<Rightarrow> 'a world \<Rightarrow> 'a world" where
  "deliver t v w =
     put_plugin t ((heap w t)\<lparr>queue := map_option (\<lambda>q. q @ [v]) (queue (heap w t)), event := map_option (\<lambda>_. True) (event (heap w t))\<rparr>)
       (log_call (Input t v) w)"


definition deliveries :: "nid list \<Rightarrow> 'a option \<Rightarrow> 'a call list" where
  "deliveries ts v = (case v of None \<Rightarrow> [] | Some _ \<Rightarrow> map (\<lambda>t. Input t v) ts)"

fun delivered_to :: "nid \<Rightarrow> 'a call list \<Rightarrow> 'a option list" where
  "delivered_to t [] = []"
| "delivered_to t (Input n v # cs) = (if n = t then v # delivered_to t cs else delivered_to t cs)"
| "delivered_to t (Process n v # cs) = delivered_to t cs"

fun processed_by :: "nid \<Rightarrow> 'a call list \<Rightarrow> 'a option list" where
  "processed_by n [] = []"
| "processed_by n (Input t v # cs) = processed_by n cs"
| "processed_by n (Process m v # cs) = (if m = n then v # processed_by n cs else processed_by n cs)"


definition item_calls :: "nid \<Rightarrow> 'a plugin \<Rightarrow> 'a option \<Rightarrow> 'a call list" where
  "item_calls self p item =
     Process self item
       # (case process p item of Inl e \<Rightarrow> [] | Inr result \<Rightarrow> deliveries (outputs p) result)
       @ (if relay p then deliveries (outputs p) item else [])"


subsection \<open>The model query stage: \<open>ChatQuery.process\<close>\<close>

text \<open>
  The values that reach a \<open>ChatQuery\<close>: a string, a dict, a \<open>ChatHistory\<close>, the
  streaming iterator that \<open>generate\<close> returns, or a value of any other type, of which
  only the name of the type matters. A stream is the tokens it yields together with
  the final text and cache it carries. \<open>chat_query\<close> holds the attributes that
  \<open>ChatQuery.__init__\<close> sets besides those of \<open>Plugin\<close>.

  \<open>ChatHistory\<close> and \<open>LocalLM\<close> are not among the source files. Their operations are
  parameters of the model, with the interface of section 4.3 of the specification:
  \<open>history_append role (keyword, value)\<close> adds an entry (the entry handle it returns is
  the last entry, whose text \<open>reply_text\<close> reads and \<open>set_reply_text\<close> writes),
  \<open>embed_chat\<close> gives the embedding and position, \<open>kv_cache\<close> and \<open>set_kv_cache\<close> read
  and write the cache of a history, and \<open>generate\<close> takes the model, the embedding, the
  cache and the generation parameters. \<open>history_append\<close>, \<open>embed_chat\<close> and
  \<open>generate\<close> may raise.
\<close>

record 'kv stream =
  tokens :: "string list"
  output_text :: string
  stream_kv_cache :: 'kv

datatype ('h, 'kv) pyval =
    PyStr string
  | PyDict "(string \<times> string) list"
  | PyChatHistory 'h
  | PyStream "'kv stream"
  | PyOther string

record ('h, 'm) chat_query =
  model :: 'm
  chat_history :: 'h
  max_new_tokens :: int
  min_new_tokens :: int
  do_sample :: bool
  repetition_penalty :: real
  temperature :: real
  top_p :: real

record ('h, 'm, 'e, 'kv) collaborators =
  history_append :: "string \<Rightarrow> string \<times> ('h, 'kv) pyval \<Rightarrow> 'h \<Rightarrow> error + 'h"
  embed_chat :: "'h \<Rightarrow> error + 'e \<times> nat"
  kv_cache :: "'h \<Rightarrow> 'kv"
  set_kv_cache :: "'kv \<Rightarrow> 'h \<Rightarrow> 'h"
  reply_text :: "'h \<Rightarrow> string"
  set_reply_text :: "string \<Rightarrow> 'h \<Rightarrow> 'h"
  generate :: "'m \<Rightarrow> 'e \<Rightarrow> 'kv \<Rightarrow> int \<times> int \<times> bool \<times> real \<times> real \<times> real \<Rightarrow> error + 'kv stream \<times> 'm"

text \<open>The name of the type of an input, and the \<open>TypeError\<close> that \<open>process\<close> raises.\<close>

definition type_of_input :: "('h, 'kv) pyval option \<Rightarrow> string" where
  "type_of_input v =
     (case v of
        None \<Rightarrow> ''NoneType''
      | Some (PyStr s) \<Rightarrow> ''str''
      | Some (PyDict d) \<Rightarrow> ''dict''
      | Some (PyChatHistory h) \<Rightarrow> ''ChatHistory''
      | Some (PyStream s) \<Rightarrow> ''generator''
      | Some (PyOther ty) \<Rightarrow> ty)"

definition process_type_error :: "('h, 'kv) pyval option \<Rightarrow> error" where
  "process_type_error v =
     TypeError (''LLMQuery plugin expects inputs of type str, dict, or ChatHistory (was ''
                  @ type_of_input v @ '')'')"

text \<open>
  The state \<open>process\<close> works on: the attributes of the \<open>ChatQuery\<close> and the world of
  plugins. \<open>stream_tokens\<close> is the loop over the tokens of the stream: each token is
  added to the text of the bot reply and passed to \<open>self.output\<close>.
\<close>

type_synonym ('h, 'm, 'kv) cq_state = "('h, 'm) chat_query \<times> ('h, 'kv) pyval world"

fun stream_tokens ::
  "('h, 'm, 'e, 'kv) collaborators \<Rightarrow> nat \<Rightarrow> nid \<Rightarrow> string list \<Rightarrow> ('h, 'm, 'kv) cq_state
     \<Rightarrow> (error option \<times> ('h, 'm, 'kv) cq_state) option" where
  "stream_tokens C k self [] (cq, w) = Some (None, (cq, w))"
| "stream_tokens C k self (token # rest) (cq, w) =
     (let cq1 = cq\<lparr>chat_history :=
                  set_reply_text C (reply_text C (chat_history cq) @ token) (chat_history cq)\<rparr>
      in case Plugin_output k self (Some (PyStr token)) (- 1) w of
           None \<Rightarrow> None
         | Some (Some e, w1) \<Rightarrow> Some (Some e, (cq1, w1))
         | Some (None, w1) \<Rightarrow> stream_tokens C k self rest (cq1, w1))"

text \<open>
  The first statement of \<open>process\<close>: the \<open>if\<close>/\<open>elif\<close>/\<open>else\<close> on the type of the
  input. It yields the history to use and whether the input was a \<open>ChatHistory\<close>, after
  appending a string or dict to the plugin's own history as the user's message.
\<close>

definition choose_history ::
  "('h, 'm, 'e, 'kv) collaborators \<Rightarrow> ('h, 'kv) pyval option \<Rightarrow> ('h, 'm) chat_query
     \<Rightarrow> error + ('h, 'm) chat_query \<times> 'h \<times> bool" where
  "choose_history C inp cq =
     (case inp of
        Some (PyStr x) \<Rightarrow>
          (case history_append C ''user'' (''msg'', PyStr x) (chat_history cq) of
             Inl e \<Rightarrow> Inl e
           | Inr h \<Rightarrow> Inr (cq\<lparr>chat_history := h\<rparr>, h, False))
      | Some (PyDict x) \<Rightarrow>
          (case history_append C ''user'' (''msg'', PyDict x) (chat_history cq) of
             Inl e \<Rightarrow> Inl e
           | Inr h \<Rightarrow> Inr (cq\<lparr>chat_history := h\<rparr>, h, False))
      | Some (PyChatHistory h) \<Rightarrow> Inr (cq, h, True)
      | _ \<Rightarrow> Inl (process_type_error inp))"

definition ChatQuery_process ::
  "('h, 'm, 'e, 'kv) collaborators \<Rightarrow> nat \<Rightarrow> nid \<Rightarrow> ('h, 'kv) pyval option \<Rightarrow> ('h, 'm, 'kv) cq_state
     \<Rightarrow> ((error + ('h, 'kv) pyval option) \<times> ('h, 'm, 'kv) cq_state) option" where
  "ChatQuery_process C k self inp s =
     (let (cq, w) = s in
      case choose_history C inp cq of
        Inl e \<Rightarrow> Some (Inl e, (cq, w))
      | Inr (cq1, hist, is_history) \<Rightarrow>
         (case embed_chat C hist of
            Inl e \<Rightarrow> Some (Inl e, (cq1, w))
          | Inr (embedding, position) \<Rightarrow>
             (case generate C (model cq1) embedding (kv_cache C hist)
                     (max_new_tokens cq1, min_new_tokens cq1, do_sample cq1,
                      repetition_penalty cq1, temperature cq1, top_p cq1) of
                Inl e \<Rightarrow> Some (Inl e, (cq1, w))
              | Inr (out, m) \<Rightarrow>
                 (let cq2 = cq1\<lparr>model := m\<rparr> in
                  if \<not> is_history then
                    (case history_append C ''bot'' (''text'', PyStr []) (chat_history cq2) of
                       Inl e \<Rightarrow> Some (Inl e, (cq2, w))
                     | Inr h3 \<Rightarrow>
                        (case stream_tokens C k self (tokens out) (cq2\<lparr>chat_history := h3\<rparr>, w) of
                           None \<Rightarrow> None
                         | Some (Some e, s4) \<Rightarrow> Some (Inl e, s4)
                         | Some (None, (cq4, w4)) \<Rightarrow>
                            Some (Inr None,
                              (cq4\<lparr>chat_history :=
                                  set_kv_cache C (stream_kv_cache out)
                                    (set_reply_text C (output_text out) (chat_history cq4))\<rparr>, w4))))
                  else Some (Inr (Some (PyStream out)), (cq2, w))))))"

text \<open>
  The inputs \<open>process\<close> accepts; plugins none of whose \<open>process\<close> methods raises a
  \<open>TypeError\<close>, outcomes that are not a \<open>TypeError\<close> and leave such a world; and
  collaborators that raise no \<open>TypeError\<close>.
\<close>

definition accepted_input :: "('h, 'kv) pyval option \<Rightarrow> bool" where
  "accepted_input inp =
     (case inp of
        Some (PyStr x) \<Rightarrow> True
      | Some (PyDict x) \<Rightarrow> True
      | Some (PyChatHistory h) \<Rightarrow> True
      | _ \<Rightarrow> False)"

definition raises_no_TypeError :: "'a world \<Rightarrow> bool" where
  "raises_no_TypeError w = (\<forall>n x m. process (heap w n) x \<noteq> Inl (TypeError m))"

definition no_TypeError :: "'a outcome \<Rightarrow> bool" where
  "no_TypeError r =
     (case r of None \<Rightarrow> True
      | Some (e, w) \<Rightarrow> (\<forall>m. e \<noteq> Some (TypeError m)) \<and> raises_no_TypeError w)"

definition collaborators_raise_no_TypeError :: "('h, 'm, 'e, 'kv) collaborators \<Rightarrow> bool" where
  "collaborators_raise_no_TypeError C =
     ((\<forall>role arg h m. history_append C role arg h \<noteq> Inl (TypeError m))
      \<and> (\<forall>h m. embed_chat C h \<noteq> Inl (TypeError m))
      \<and> (\<forall>lm e kv cfg m. generate C lm e kv cfg \<noteq> Inl (TypeError m)))"

subsection \<open>Example graphs\<close>

text \<open>
  Concrete plugins and graphs on which the theorems below are instantiated. \<open>sink\<close> is a
  threaded plugin without outputs whose \<open>process\<close> returns \<open>None\<close>; \<open>source\<close> relays,
  increments the numbers it processes, and outputs to plugin 1, plugin 2 and plugin 1
  again; \<open>silent\<close> relays and its \<open>process\<close> returns \<open>None\<close>. In
  \<open>queued_world\<close> plugin 1 is a sink with one queued item.
\<close>

definition sink :: "nat plugin" where
  "sink = \<lparr>relay = False, threaded = True, outputs = [], queue = Some [], event = Some False,
           classes = [''Sink'', ''Plugin''], process = (\<lambda>x. Inr None)\<rparr>"

definition source :: "nat plugin" where
  "source = \<lparr>relay = True, threaded = True, outputs = [1, 2, 1], queue = Some [Some 5, Some 7],
             event = Some True, classes = [''Source'', ''Plugin''],
             process = (\<lambda>x. Inr (map_option Suc x))\<rparr>"


definition fan_world :: "nat world" where
  "fan_world = \<lparr>heap = (\<lambda>n. sink)(0 := source), next_id = 3, calls = []\<rparr>"



text \<open>
  \<open>chain_world\<close> is the graph 0 \<open>\<rightarrow>\<close> 1 \<open>\<rightarrow>\<close> 2 of a source, a stage and a sink.
\<close>

definition chain_world :: "nat world" where
  "chain_world =
     \<lparr>heap = (\<lambda>n. sink)
        (0 := \<lparr>relay = False, threaded = True, outputs = [1], queue = Some [], event = Some False,
               classes = [''Source'', ''Plugin''], process = (\<lambda>x. Inr x)\<rparr>,
         1 := \<lparr>relay = False, threaded = True, outputs = [2], queue = Some [], event = Some False,
               classes = [''Stage'', ''Plugin''], process = (\<lambda>x. Inr x)\<rparr>),
      next_id = 3, calls = []\<rparr>"

text \<open>
  Collaborators that never raise, a \<open>ChatQuery\<close> with the default generation
  parameters, and a world of threaded plugins without outputs.
\<close>

definition echo_collaborators :: "(string list, nat, nat, nat) collaborators" where
  "echo_collaborators =
     \<lparr>history_append = (\<lambda>role arg h. Inr (h @ [role])),
      embed_chat = (\<lambda>h. Inr (length h, length h)),
      kv_cache = (\<lambda>h. 0),
      set_kv_cache = (\<lambda>kv h. h),
      reply_text = (\<lambda>h. []),
      set_reply_text = (\<lambda>text h. h),
      generate = (\<lambda>lm e kv cfg. Inr (\<lparr>tokens = [''hi''], output_text = ''hi'', stream_kv_cache = 1\<rparr>, lm))\<rparr>"

definition example_query :: "(string list, nat) chat_query" where
  "example_query =
     \<lparr>model = 0, chat_history = [], max_new_tokens = 128, min_new_tokens = - 1, do_sample = False,
      repetition_penalty = 1, temperature = 7 / 10, top_p = 95 / 100\<rparr>"

definition query_world :: "(string list, nat) pyval world" where
  "query_world =
     \<lparr>heap = (\<lambda>n. \<lparr>relay = False, threaded = True, outputs = [], queue = Some [], event = Some False,
                    classes = [''ChatQuery'', ''Plugin''], process = (\<lambda>x. Inr None)\<rparr>),
      next_id = 1, calls = []\<rparr>"

section \<open>Properties\<close>

subsection \<open>Basic facts\<close>

lemma and_then_simps [simp]:
  "and_then None f = None"
  "and_then (Some (Some e, w)) f = Some (Some e, w)"
  "and_then (Some (None, w)) f = f w"
  by (simp_all add: and_then_def)

lemma heap_put_plugin [simp]: "heap (put_plugin n p w) = (heap w)(n := p)"
  by (simp add: put_plugin_def)
lemma calls_put_plugin [simp]: "calls (put_plugin n p w) = calls w"
  by (simp add: put_plugin_def)
lemma next_id_put_plugin [simp]: "next_id (put_plugin n p w) = next_id w"
  by (simp add: put_plugin_def)
lemma heap_log_call [simp]: "heap (log_call c w) = heap w"
  by (simp add: log_call_def)
lemma calls_log_call [simp]: "calls (log_call c w) = calls w @ [c]"
  by (simp add: log_call_def)
lemma next_id_log_call [simp]: "next_id (log_call c w) = next_id w"
  by (simp add: log_call_def)


lemma input_threaded:
  "has_mailbox w t \<Longrightarrow> Plugin_input (Suc k) t v ch w = Some (None, deliver t v w)"
  by (auto simp: has_mailbox_def deliver_def enqueue_def set_event_def Let_def put_plugin_def log_call_def)

lemma deliver_calls [simp]: "calls (deliver t v w) = calls w @ [Input t v]"
  by (simp add: deliver_def)
lemma deliver_next_id [simp]: "next_id (deliver t v w) = next_id w"
  by (simp add: deliver_def)
lemma deliver_heap_other: "n \<noteq> t \<Longrightarrow> heap (deliver t v w) n = heap w n"
  by (simp add: deliver_def)
lemma deliver_fields [simp]:
  "outputs (heap (deliver t v w) n) = outputs (heap w n)"
  "relay (heap (deliver t v w) n) = relay (heap w n)"
  "threaded (heap (deliver t v w) n) = threaded (heap w n)"
  "classes (heap (deliver t v w) n) = classes (heap w n)"
  "process (heap (deliver t v w) n) = process (heap w n)"
  by (simp_all add: deliver_def)
lemma deliver_queue:
  "queue (heap (deliver t v w) n) = map_option (\<lambda>q. q @ (if n = t then [v] else [])) (queue (heap w n))"
  by (cases "n = t"; cases "queue (heap w n)") (simp_all add: deliver_def)
lemma deliver_has_mailbox [simp]: "has_mailbox (deliver t v w) n = has_mailbox w n"
  by (auto simp: has_mailbox_def deliver_def)

lemma fold_deliver_next_id: "next_id (fold (\<lambda>t. deliver t v) ts w) = next_id w"
  by (induction ts arbitrary: w) simp_all


lemma delivered_to_append [simp]: "delivered_to t (cs @ ds) = delivered_to t cs @ delivered_to t ds"
  by (induction t cs rule: delivered_to.induct) simp_all
lemma processed_by_append [simp]: "processed_by t (cs @ ds) = processed_by t cs @ processed_by t ds"
  by (induction t cs rule: processed_by.induct) simp_all
lemma processed_by_map_Input [simp]: "processed_by n (map (\<lambda>t. Input t v) ts) = []"
  by (induction ts) simp_all


lemma item_calls_queue_update [simp]: "item_calls self (p\<lparr>queue := q\<rparr>) = item_calls self p"
  by (rule ext) (simp add: item_calls_def split: sum.splits)



lemma processed_by_deliveries [simp]: "processed_by n (deliveries ts v) = []"
  by (cases v) (simp_all add: deliveries_def)

lemma processed_by_item_calls [simp]: "processed_by self (item_calls self p item) = [item]"
  by (simp add: item_calls_def split: sum.splits)

lemma has_mailbox_log_call [simp]: "has_mailbox (log_call c w) n = has_mailbox w n"
  by (simp add: has_mailbox_def)




subsection \<open>The dispatch loop\<close>




subsection \<open>\<open>output\<close>\<close>



text \<open>
  Claim C6. \<open>output(value, channel)\<close> with \<open>channel >= 0\<close> and a value that is not
  \<open>None\<close> is exactly one call of \<open>input\<close>, on \<open>outputs[channel]\<close>: for a threaded
  target that one call is logged, the value is put at the end of the target's queue
  and no other plugin changes. If \<open>channel\<close> is at or beyond the length of \<open>outputs\<close>
  the call raises \<open>IndexError\<close> and changes nothing.
\<close>

theorem output_channel_only:
  assumes "0 \<le> channel"
  shows "(nat channel < length (outputs (heap w self)) \<longrightarrow>
            Plugin_output (Suc k) self (Some v) channel w
              = Plugin_input k (outputs (heap w self) ! nat channel) (Some v) 0 w
          \<and> (has_mailbox w (outputs (heap w self) ! nat channel) \<longrightarrow>
               (\<exists>w'. Plugin_output (Suc (Suc k)) self (Some v) channel w = Some (None, w')
                  \<and> calls w' = calls w @ [Input (outputs (heap w self) ! nat channel) (Some v)]
                  \<and> queue (heap w' (outputs (heap w self) ! nat channel))
                      = map_option (\<lambda>q. q @ [Some v]) (queue (heap w (outputs (heap w self) ! nat channel)))
                  \<and> (\<forall>t. t \<noteq> outputs (heap w self) ! nat channel \<longrightarrow> heap w' t = heap w t))))
       \<and> (length (outputs (heap w self)) \<le> nat channel \<longrightarrow>
            Plugin_output (Suc k) self (Some v) channel w = Some (Some IndexError, w))"
proof (intro conjI impI)
  assume "nat channel < length (outputs (heap w self))"
  then show a: "Plugin_output (Suc k) self (Some v) channel w
              = Plugin_input k (outputs (heap w self) ! nat channel) (Some v) 0 w"
    using assms by simp
  let ?t = "outputs (heap w self) ! nat channel"
  assume "has_mailbox w ?t"
  then have "Plugin_input (Suc k) ?t (Some v) 0 w = Some (None, deliver ?t (Some v) w)"
    by (rule input_threaded)
  moreover have "Plugin_output (Suc (Suc k)) self (Some v) channel w = Plugin_input (Suc k) ?t (Some v) 0 w"
    using assms \<open>nat channel < length (outputs (heap w self))\<close> by simp
  ultimately have "Plugin_output (Suc (Suc k)) self (Some v) channel w = Some (None, deliver ?t (Some v) w)"
    by simp
  moreover have "queue (heap (deliver ?t (Some v) w) ?t) = map_option (\<lambda>q. q @ [Some v]) (queue (heap w ?t))"
    by (simp add: deliver_queue)
  ultimately show "\<exists>w'. Plugin_output (Suc (Suc k)) self (Some v) channel w = Some (None, w')
                  \<and> calls w' = calls w @ [Input ?t (Some v)]
                  \<and> queue (heap w' ?t) = map_option (\<lambda>q. q @ [Some v]) (queue (heap w ?t))
                  \<and> (\<forall>t. t \<noteq> ?t \<longrightarrow> heap w' t = heap w t)"
    by (simp add: deliver_heap_other)
next
  assume "length (outputs (heap w self)) \<le> nat channel"
  then show "Plugin_output (Suc k) self (Some v) channel w = Some (Some IndexError, w)"
    using assms by simp
qed

theorem output_channel_only_witness:
  "(\<exists>w'. Plugin_output 2 0 (Some 9) 1 fan_world = Some (None, w')
      \<and> calls w' = [Input 2 (Some 9)]
      \<and> queue (heap w' 2) = Some [Some 9]
      \<and> heap w' 1 = heap fan_world 1)
   \<and> Plugin_output 1 0 (Some 9) 3 fan_world = Some (Some IndexError, fan_world)"
proof -
  have o: "outputs (heap fan_world 0) = [1, 2, 1]" by (simp add: fan_world_def source_def)
  have m: "has_mailbox fan_world 2" by (simp add: fan_world_def sink_def has_mailbox_def)
  have q: "queue (heap fan_world 2) = Some []" by (simp add: fan_world_def sink_def)
  from output_channel_only[of 1 fan_world 0 0 "9::nat"] o m q
  have a: "\<exists>w'. Plugin_output 2 0 (Some 9) 1 fan_world = Some (None, w')
      \<and> calls w' = calls fan_world @ [Input 2 (Some 9)]
      \<and> queue (heap w' 2) = Some [Some 9]
      \<and> (\<forall>t. t \<noteq> 2 \<longrightarrow> heap w' t = heap fan_world t)"
    by (simp add: eval_nat_numeral)
  from output_channel_only[of 3 fan_world 0 0 "9::nat"] o
  have b: "Plugin_output 1 0 (Some 9) 3 fan_world = Some (Some IndexError, fan_world)"
    by simp
  from a obtain w' where "Plugin_output 2 0 (Some 9) 1 fan_world = Some (None, w')"
      "calls w' = calls fan_world @ [Input 2 (Some 9)]"
      "queue (heap w' 2) = Some [Some 9]"
      "\<forall>t. t \<noteq> 2 \<longrightarrow> heap w' t = heap fan_world t" by blast
  moreover have "calls fan_world = []" by (simp add: fan_world_def)
  ultimately have "\<exists>w'. Plugin_output 2 0 (Some 9) 1 fan_world = Some (None, w')
      \<and> calls w' = [Input 2 (Some 9)]
      \<and> queue (heap w' 2) = Some [Some 9]
      \<and> heap w' 1 = heap fan_world 1" by auto
  with b show ?thesis by blast
qed




subsection \<open>\<open>input\<close>\<close>

text \<open>
  Claim C9. The \<open>channel\<close> argument of \<open>input\<close> (and of its alias \<open>__call__\<close>) has no
  influence: any two channel values give the same outcome and the same world.
\<close>

theorem input_ignores_channel:
  "Plugin_input k self item c1 w = Plugin_input k self item c2 w
   \<and> Plugin_call k self item c1 w = Plugin_call k self item c2 w"
  by (cases k) (simp_all add: Plugin_call_def)


text \<open>
  Claim C1 fails on the code. For a plugin constructed with \<open>threaded=False\<close>,
  \<open>input(item)\<close> calls \<open>update()\<close>, which reads \<open>self.queue\<close>; the constructor made no
  queue, so the call raises \<open>AttributeError\<close>. The log holds the \<open>input\<close> call and no
  \<open>process\<close> call: the item is never processed.
\<close>

theorem input_nonthreaded_never_processes:
  "Plugin_input (Suc (Suc k)) (next_id w) item channel (snd (Plugin_init rel False cls proc w))
     = Some (Some (AttributeError ''queue''),
             log_call (Input (next_id w) item) (snd (Plugin_init rel False cls proc w)))"
  by (simp add: Plugin_init_def Let_def)

subsection \<open>\<open>add\<close>\<close>

lemma fst_Callback [simp]: "fst (Callback f w) = next_id w"
  by (simp add: Callback_def Plugin_init_def)
lemma heap_Callback [simp]:
  "heap (snd (Callback f w)) = (heap w)(next_id w := \<lparr>relay = False, threaded = True, outputs = [],
        queue = Some [], event = Some False, classes = [''Callback'', ''Plugin''], process = f\<rparr>)"
  by (simp add: Callback_def Plugin_init_def)
lemma next_id_Callback [simp]: "next_id (snd (Callback f w)) = Suc (next_id w)"
  by (simp add: Callback_def Plugin_init_def)
lemma heap_append_output [simp]:
  "heap (append_output src dst w) = (heap w)(src := (heap w src)\<lparr>outputs := outputs (heap w src) @ [dst]\<rparr>)"
  by (simp add: append_output_def)
lemma next_id_append_output [simp]: "next_id (append_output src dst w) = next_id w"
  by (simp add: append_output_def)

text \<open>
  Claim C5. \<open>add(other, mode)\<close> fails exactly when \<open>other\<close> is neither a plugin nor
  callable, or \<open>mode\<close> is neither \<open>'input'\<close> nor \<open>'output'\<close>. In the first case the error
  is the \<open>TypeError\<close> whose message names the type of \<open>other\<close> and the world is
  unchanged; otherwise it is the \<open>ValueError\<close>. In every failure case every plugin
  that existed before the call is unchanged, so no \<open>outputs\<close> list is modified; a
  wrapper that was created for a callable before the mode was checked has no outputs.
\<close>

theorem add_fails_exactly_on_bad_arguments:
  "((\<exists>e. fst (Plugin_add self plugin mode w) = Inl e)
      \<longleftrightarrow> ((\<exists>ty. plugin = NonCallable ty) \<or> (mode \<noteq> ''output'' \<and> mode \<noteq> ''input'')))
   \<and> (\<forall>ty. plugin = NonCallable ty \<longrightarrow> Plugin_add self plugin mode w = (Inl (add_type_error w self ty), w))
   \<and> ((\<forall>ty. plugin \<noteq> NonCallable ty) \<and> mode \<noteq> ''output'' \<and> mode \<noteq> ''input''
        \<longrightarrow> fst (Plugin_add self plugin mode w) = Inl add_mode_error)
   \<and> (\<forall>e. fst (Plugin_add self plugin mode w) = Inl e \<longrightarrow>
        (\<forall>n. n < next_id w \<longrightarrow> heap (snd (Plugin_add self plugin mode w)) n = heap w n)
      \<and> (\<forall>n. next_id w \<le> n \<and> n < next_id (snd (Plugin_add self plugin mode w))
             \<longrightarrow> outputs (heap (snd (Plugin_add self plugin mode w)) n) = []))"
  by (cases plugin) (auto simp: Plugin_add_def Let_def split_beta less_Suc_eq_le)

theorem add_fails_exactly_on_bad_arguments_witness:
  "Plugin_add 0 (NonCallable ''int'') ''output'' fan_world
      = (Inl (TypeError ''Source.add() expects either a Plugin instance or a callable function (was int)''), fan_world)
   \<and> fst (Plugin_add 0 (PluginObj 1) ''sideways'' fan_world) = Inl add_mode_error
   \<and> heap (snd (Plugin_add 0 (Callable (\<lambda>x. Inr x)) ''sideways'' fan_world)) 0 = heap fan_world 0"
proof -
  note t = add_fails_exactly_on_bad_arguments
  have a: "Plugin_add 0 (NonCallable ''int'') ''output'' fan_world
      = (Inl (add_type_error fan_world 0 ''int''), fan_world)"
    using t[of 0 "NonCallable ''int''" "''output''" fan_world] by blast
  have b: "fst (Plugin_add 0 (PluginObj 1) ''sideways'' fan_world) = Inl add_mode_error"
    using t[of 0 "PluginObj 1" "''sideways''" fan_world] by simp
  have "\<exists>e. fst (Plugin_add 0 (Callable (\<lambda>x. Inr x)) ''sideways'' fan_world) = Inl e"
    using t[of 0 "Callable (\<lambda>x. Inr x)" "''sideways''" fan_world] by simp
  moreover have "(0::nat) < next_id fan_world" by (simp add: fan_world_def)
  ultimately have c: "heap (snd (Plugin_add 0 (Callable (\<lambda>x. Inr x)) ''sideways'' fan_world)) 0 = heap fan_world 0"
    using t[of 0 "Callable (\<lambda>x. Inr x)" "''sideways''" fan_world] by blast
  show ?thesis using a b c by (simp add: add_type_error_def fan_world_def source_def)
qed

text \<open>
  Claim C8. \<open>add(other, 'output')\<close> appends \<open>other\<close>, or the \<open>Callback\<close> wrapper made for
  a bare callable, to the receiver's \<open>outputs\<close>; \<open>add(other, 'input')\<close> appends the
  receiver to the \<open>outputs\<close> of \<open>other\<close> (of the wrapper, for a callable). No other
  plugin changes, and both calls return the receiver. The wrapper is the new object at
  \<open>next_id w\<close>, whose \<open>process\<close> is the callable; the receiver is an existing object.
\<close>

theorem add_connects:
  "(fst (Plugin_add self (PluginObj p) ''output'' w) = Inr self
      \<and> outputs (heap (snd (Plugin_add self (PluginObj p) ''output'' w)) self) = outputs (heap w self) @ [p]
      \<and> (\<forall>n. n \<noteq> self \<longrightarrow> heap (snd (Plugin_add self (PluginObj p) ''output'' w)) n = heap w n))
   \<and> (fst (Plugin_add self (PluginObj p) ''input'' w) = Inr self
      \<and> outputs (heap (snd (Plugin_add self (PluginObj p) ''input'' w)) p) = outputs (heap w p) @ [self]
      \<and> (\<forall>n. n \<noteq> p \<longrightarrow> heap (snd (Plugin_add self (PluginObj p) ''input'' w)) n = heap w n))
   \<and> (self < next_id w \<longrightarrow>
        fst (Plugin_add self (Callable f) ''output'' w) = Inr self
      \<and> outputs (heap (snd (Plugin_add self (Callable f) ''output'' w)) self) = outputs (heap w self) @ [next_id w]
      \<and> process (heap (snd (Plugin_add self (Callable f) ''output'' w)) (next_id w)) = f
      \<and> outputs (heap (snd (Plugin_add self (Callable f) ''output'' w)) (next_id w)) = []
      \<and> (\<forall>n. n \<noteq> self \<and> n \<noteq> next_id w
             \<longrightarrow> heap (snd (Plugin_add self (Callable f) ''output'' w)) n = heap w n))
   \<and> (self < next_id w \<longrightarrow>
        fst (Plugin_add self (Callable f) ''input'' w) = Inr self
      \<and> outputs (heap (snd (Plugin_add self (Callable f) ''input'' w)) (next_id w)) = [self]
      \<and> process (heap (snd (Plugin_add self (Callable f) ''input'' w)) (next_id w)) = f
      \<and> (\<forall>n. n \<noteq> next_id w \<longrightarrow> heap (snd (Plugin_add self (Callable f) ''input'' w)) n = heap w n))"
  by (simp add: Plugin_add_def Let_def split_beta)

theorem add_connects_witness:
  "fst (Plugin_add 0 (PluginObj 2) ''output'' fan_world) = Inr 0
   \<and> outputs (heap (snd (Plugin_add 0 (PluginObj 2) ''output'' fan_world)) 0) = [1, 2, 1, 2]
   \<and> outputs (heap (snd (Plugin_add 0 (PluginObj 2) ''input'' fan_world)) 2) = [0]
   \<and> outputs (heap (snd (Plugin_add 0 (Callable (\<lambda>x. Inr x)) ''output'' fan_world)) 0) = [1, 2, 1, 3]
   \<and> outputs (heap (snd (Plugin_add 0 (Callable (\<lambda>x. Inr x)) ''input'' fan_world)) 3) = [0]"
proof -
  have n: "(0::nat) < next_id fan_world" "next_id fan_world = 3" by (simp_all add: fan_world_def)
  have o: "outputs (heap fan_world 0) = [1, 2, 1]" "outputs (heap fan_world 2) = []"
    by (simp_all add: fan_world_def source_def sink_def)
  show ?thesis
    using add_connects[of 0 2 fan_world "\<lambda>x. Inr x"] n o by simp
qed

subsection \<open>\<open>find\<close>\<close>

text \<open>
  On a well-founded output graph the search returns once the fuel is large enough, and
  its result is the one of the depth-first search of the specification. First the
  loop over a list of outputs, given the statement for each entry, then the search
  itself by well-founded induction along the output edges.
\<close>

lemma find_outputs_total:
  assumes "\<forall>t\<in>set ts. \<exists>F r. \<forall>k\<ge>F. Plugin_find k w t ty = Some r \<and> dfs_first w ty t r \<and> found_ok w ty {t} r"
  shows "\<exists>F r. \<forall>k\<ge>F. find_outputs k w ts ty = Some r \<and> dfs_first_list w ty ts r \<and> found_ok w ty (set ts) r"
  using assms
proof (induction ts)
  case Nil
  have "\<forall>k\<ge>Suc 0. find_outputs k w [] ty = Some None \<and> dfs_first_list w ty [] None \<and> found_ok w ty (set []) None"
  proof (intro allI impI)
    fix k :: nat assume "Suc 0 \<le> k"
    then obtain k' where "k = Suc k'" by (cases k) auto
    then show "find_outputs k w [] ty = Some None \<and> dfs_first_list w ty [] None \<and> found_ok w ty (set []) None"
      by (simp add: found_ok_def no_edges)
  qed
  then show ?case by blast
next
  case (Cons t ts)
  from Cons.prems obtain Ft rt where
    t: "\<forall>k\<ge>Ft. Plugin_find k w t ty = Some rt \<and> dfs_first w ty t rt \<and> found_ok w ty {t} rt"
    by auto
  from Cons obtain Fs rs where
    ts: "\<forall>k\<ge>Fs. find_outputs k w ts ty = Some rs \<and> dfs_first_list w ty ts rs \<and> found_ok w ty (set ts) rs"
    by auto
  have dt: "dfs_first w ty t rt" and ft: "found_ok w ty {t} rt" using t by auto
  have ds: "dfs_first_list w ty ts rs" and fs: "found_ok w ty (set ts) rs" using ts by auto
  let ?F = "Suc (max Ft Fs)"
  show ?case
  proof (cases "isinstance w t ty")
    case True
    have "\<forall>k\<ge>?F. find_outputs k w (t # ts) ty = Some (Some t)"
    proof (intro allI impI)
      fix k assume "?F \<le> k"
      then obtain k' where "k = Suc k'" by (cases k) auto
      then show "find_outputs k w (t # ts) ty = Some (Some t)"
        using True by simp
    qed
    moreover have "dfs_first_list w ty (t # ts) (Some t)"
      using True by (intro first_edge self_matches)
    moreover have "found_ok w ty (set (t # ts)) (Some t)"
      using True by (auto simp: found_ok_def)
    ultimately show ?thesis by blast
  next
    case False
    show ?thesis
    proof (cases rt)
      case None
      have "\<forall>k\<ge>?F. find_outputs k w (t # ts) ty = Some rs"
      proof (intro allI impI)
        fix k assume "?F \<le> k"
        then obtain k' where k: "k = Suc k'" "Ft \<le> k'" "Fs \<le> k'" by (cases k) auto
        then show "find_outputs k w (t # ts) ty = Some rs"
          using False t ts None by simp
      qed
      moreover have "dfs_first_list w ty (t # ts) rs"
        using dt ds None by (auto intro: next_edge)
      moreover have "found_ok w ty (set (t # ts)) rs"
        using ft fs None by (cases rs) (auto simp: found_ok_def)
      ultimately show ?thesis by blast
    next
      case (Some m)
      have "\<forall>k\<ge>?F. find_outputs k w (t # ts) ty = Some (Some m)"
      proof (intro allI impI)
        fix k assume "?F \<le> k"
        then obtain k' where k: "k = Suc k'" "Ft \<le> k'" by (cases k) auto
        then show "find_outputs k w (t # ts) ty = Some (Some m)"
          using False t Some by simp
      qed
      moreover have "dfs_first_list w ty (t # ts) (Some m)"
        using dt Some by (auto intro: first_edge)
      moreover have "found_ok w ty (set (t # ts)) (Some m)"
        using ft Some by (auto simp: found_ok_def)
      ultimately show ?thesis by blast
    qed
  qed
qed

lemma find_total:
  assumes "wf ((output_edges w)\<inverse>)"
  shows "\<exists>F r. \<forall>k\<ge>F. Plugin_find k w n ty = Some r \<and> dfs_first w ty n r \<and> found_ok w ty {n} r"
  using assms
proof (induction n rule: wf_induct_rule)
  case (less n)
  show ?case
  proof (cases "isinstance w n ty")
    case True
    have "\<forall>k\<ge>Suc 0. Plugin_find k w n ty = Some (Some n)"
    proof (intro allI impI)
      fix k assume "Suc 0 \<le> k"
      then obtain k' where "k = Suc k'" by (cases k) auto
      then show "Plugin_find k w n ty = Some (Some n)"
        using True by simp
    qed
    moreover have "dfs_first w ty n (Some n)" using True by (rule self_matches)
    moreover have "found_ok w ty {n} (Some n)" using True by (simp add: found_ok_def)
    ultimately show ?thesis by blast
  next
    case False
    have "\<forall>t\<in>set (outputs (heap w n)). \<exists>F r. \<forall>k\<ge>F.
            Plugin_find k w t ty = Some r \<and> dfs_first w ty t r \<and> found_ok w ty {t} r"
      using less by (simp add: output_edges_def)
    from find_outputs_total[OF this] obtain F r where
      fr: "\<forall>k\<ge>F. find_outputs k w (outputs (heap w n)) ty = Some r
            \<and> dfs_first_list w ty (outputs (heap w n)) r \<and> found_ok w ty (set (outputs (heap w n))) r"
      by blast
    have "\<forall>k\<ge>Suc F. Plugin_find k w n ty = Some r"
    proof (intro allI impI)
      fix k assume "Suc F \<le> k"
      then obtain k' where "k = Suc k'" "F \<le> k'" by (cases k) auto
      then show "Plugin_find k w n ty = Some r"
        using False fr by simp
    qed
    moreover have "dfs_first w ty n r"
      using False fr by (auto intro: descend)
    moreover have "found_ok w ty {n} r"
    proof (cases r)
      case None
      have "\<not> isinstance w m ty" if "(n, m) \<in> (output_edges w)\<^sup>*" for m
      proof (cases "m = n")
        case True then show ?thesis using False by simp
      next
        case neq: False
        from that neq obtain t where "(n, t) \<in> output_edges w" "(t, m) \<in> (output_edges w)\<^sup>*"
          by (cases rule: converse_rtranclE) auto
        then show ?thesis using fr None by (auto simp: found_ok_def output_edges_def)
      qed
      then show ?thesis using None by (simp add: found_ok_def)
    next
      case (Some m)
      then obtain t where "t \<in> set (outputs (heap w n))" "(t, m) \<in> (output_edges w)\<^sup>*" "isinstance w m ty"
        using fr by (auto simp: found_ok_def)
      moreover have "(n, t) \<in> output_edges w" using calculation(1) by (simp add: output_edges_def)
      ultimately show ?thesis using Some by (auto simp: found_ok_def intro: converse_rtrancl_into_rtrancl)
    qed
    ultimately show ?thesis by blast
  qed
qed

text \<open>
  Claim C4. On a finite acyclic output graph \<open>find(type)\<close> returns (with enough fuel, the
  same result for any larger fuel), and the result is that of the depth-first search
  over output edges that checks the receiver first, then each output edge in list
  order, stopping at the first match. The receiver is returned when it matches; a
  plugin that is returned has the type and is reachable along output edges; \<open>None\<close> is
  returned only when no plugin reachable along output edges has the type; and a plugin
  upstream of the receiver is never returned.
\<close>

theorem find_depth_first:
  assumes "finite (output_edges w)" and "acyclic (output_edges w)"
  shows "\<exists>F r. (\<forall>k\<ge>F. Plugin_find k w n ty = Some r)
           \<and> dfs_first w ty n r
           \<and> (isinstance w n ty \<longrightarrow> r = Some n)
           \<and> (\<forall>m. r = Some m \<longrightarrow> isinstance w m ty \<and> (n, m) \<in> (output_edges w)\<^sup>*)
           \<and> (r = None \<longrightarrow> (\<forall>m. (n, m) \<in> (output_edges w)\<^sup>* \<longrightarrow> \<not> isinstance w m ty))
           \<and> (\<forall>m. (m, n) \<in> (output_edges w)\<^sup>+ \<longrightarrow> r \<noteq> Some m)"
proof -
  have "wf ((output_edges w)\<inverse>)"
    using assms by (rule finite_acyclic_wf_converse)
  from find_total[OF this, of n ty] obtain F r where
    fr: "\<forall>k\<ge>F. Plugin_find k w n ty = Some r \<and> dfs_first w ty n r \<and> found_ok w ty {n} r"
    by blast
  then have a: "\<forall>k\<ge>F. Plugin_find k w n ty = Some r" and d: "dfs_first w ty n r" and f: "found_ok w ty {n} r"
    by auto
  have i: "isinstance w n ty \<longrightarrow> r = Some n"
  proof
    assume "isinstance w n ty"
    then have "Plugin_find (Suc F) w n ty = Some (Some n)" by simp
    moreover have "F \<le> Suc F" by simp
    with a have "Plugin_find (Suc F) w n ty = Some r" by blast
    ultimately show "r = Some n" by simp
  qed
  have up: "\<forall>m. (m, n) \<in> (output_edges w)\<^sup>+ \<longrightarrow> r \<noteq> Some m"
  proof (intro allI impI notI)
    fix m assume "(m, n) \<in> (output_edges w)\<^sup>+" "r = Some m"
    then have "(n, m) \<in> (output_edges w)\<^sup>*" using f by (simp add: found_ok_def)
    with \<open>(m, n) \<in> (output_edges w)\<^sup>+\<close> have "(m, m) \<in> (output_edges w)\<^sup>+" by simp
    with assms(2) show False by (simp add: acyclic_def)
  qed
  show ?thesis using a d i f up by (cases r) (auto simp: found_ok_def)
qed

theorem find_depth_first_witness:
  "(\<exists>F. \<forall>k\<ge>F. Plugin_find k chain_world 0 ''Sink'' = Some (Some 2))
   \<and> (\<exists>F. \<forall>k\<ge>F. Plugin_find k chain_world 1 ''Source'' = Some None)"
proof -
  have edges: "output_edges chain_world = {(0, 1), (1, 2)}"
    by (auto simp: output_edges_def chain_world_def sink_def split: if_splits)
  have fin: "finite (output_edges chain_world)" by (simp add: edges)
  have acy: "acyclic (output_edges chain_world)"
    unfolding edges by (rule acyclicI_order[where f = "\<lambda>n. 3 - n"]) auto
  have down: "Plugin_find (Suc (Suc (Suc (Suc j)))) chain_world 0 ''Sink'' = Some (Some 2)" for j
    by (simp add: chain_world_def sink_def isinstance_def)
  have up: "Plugin_find (Suc (Suc (Suc (Suc (Suc j))))) chain_world 1 ''Source'' = Some None" for j
    by (simp add: chain_world_def sink_def isinstance_def)
  from find_depth_first[OF fin acy, of 0 "''Sink''"] obtain F r where
    r: "\<forall>k\<ge>F. Plugin_find k chain_world 0 ''Sink'' = Some r" by blast
  have "F \<le> Suc (Suc (Suc (Suc F)))" by simp
  with r have "Plugin_find (Suc (Suc (Suc (Suc F)))) chain_world 0 ''Sink'' = Some r" by blast
  with down[of F] have "r = Some 2" by simp
  with r have a: "\<exists>F. \<forall>k\<ge>F. Plugin_find k chain_world 0 ''Sink'' = Some (Some 2)" by blast
  from find_depth_first[OF fin acy, of 1 "''Source''"] obtain G s where
    s: "\<forall>k\<ge>G. Plugin_find k chain_world 1 ''Source'' = Some s" by blast
  have "G \<le> Suc (Suc (Suc (Suc (Suc G))))" by simp
  with s have "Plugin_find (Suc (Suc (Suc (Suc (Suc G))))) chain_world 1 ''Source'' = Some s" by blast
  with up[of G] have "s = None" by simp
  with s have b: "\<exists>F. \<forall>k\<ge>F. Plugin_find k chain_world 1 ''Source'' = Some None" by blast
  from a b show ?thesis by (rule conjI)
qed

subsection \<open>\<open>ChatQuery.process\<close>\<close>

text \<open>
  The plugin runtime raises no \<open>TypeError\<close> of its own: if no \<open>process\<close> method in the
  world raises one, neither do \<open>input\<close>, \<open>output\<close> and \<open>update\<close>.
\<close>

lemma no_TypeError_and_then:
  "no_TypeError r \<Longrightarrow> (\<And>w. raises_no_TypeError w \<Longrightarrow> no_TypeError (f w)) \<Longrightarrow> no_TypeError (and_then r f)"
proof -
  assume r: "no_TypeError r" and f: "\<And>w. raises_no_TypeError w \<Longrightarrow> no_TypeError (f w)"
  show ?thesis
  proof (cases r)
    case None
    then show ?thesis by (simp add: and_then_def no_TypeError_def)
  next
    case (Some p)
    obtain e w where p: "p = (e, w)" by (cases p)
    show ?thesis
    proof (cases e)
      case None
      with r Some p have "raises_no_TypeError w" by (simp add: no_TypeError_def)
      then have "no_TypeError (f w)" by (rule f)
      then show ?thesis using Some p None by (simp add: and_then_def)
    next
      case (Some x)
      then show ?thesis using r \<open>r = Some p\<close> p by (simp add: and_then_def no_TypeError_def)
    qed
  qed
qed

lemma raises_no_TypeError_upd [simp]:
  "raises_no_TypeError (log_call c w) = raises_no_TypeError w"
  "raises_no_TypeError (enqueue n v q w) = raises_no_TypeError w"
  "raises_no_TypeError (dequeue n q w) = raises_no_TypeError w"
  "raises_no_TypeError (set_event n w) = raises_no_TypeError w"
  by (auto simp: raises_no_TypeError_def enqueue_def dequeue_def set_event_def)

lemma no_TypeError_Some [simp]:
  "no_TypeError (Some (e, w)) = ((\<forall>m. e \<noteq> Some (TypeError m)) \<and> raises_no_TypeError w)"
  "no_TypeError None"
  by (simp_all add: no_TypeError_def)

lemma runtime_no_TypeError:
  "raises_no_TypeError w \<Longrightarrow>
     no_TypeError (Plugin_input k n v c w) \<and> no_TypeError (Plugin_output k n v c w)
     \<and> no_TypeError (output_all k ts v w) \<and> no_TypeError (Plugin_update k n w)"
proof (induction k arbitrary: w n v c ts)
  case 0
  show ?case by simp
next
  case (Suc k)
  note safe = Suc.prems
  have inp: "no_TypeError (Plugin_input (Suc k) n v c w)"
    using safe Suc.IH[of "log_call (Input n v) w" n v c ts]
    by (auto simp: Let_def split: option.splits)
  have out: "no_TypeError (Plugin_output (Suc k) n v c w)"
    using safe Suc.IH[of w "outputs (heap w n) ! nat c" v 0 "outputs (heap w n)"]
    by (auto split: option.splits)
  have all: "no_TypeError (output_all (Suc k) ts v w)"
  proof (cases ts)
    case Nil
    then show ?thesis using safe by simp
  next
    case (Cons t rest)
    have "no_TypeError (and_then (Plugin_input k t v 0 w) (output_all k rest v))"
      using safe Suc.IH by (intro no_TypeError_and_then) blast+
    then show ?thesis by (simp add: Cons)
  qed
  have upd: "no_TypeError (Plugin_update (Suc k) n w)"
  proof (cases "queue (heap w n)")
    case None
    then show ?thesis using safe by simp
  next
    case (Some q)
    show ?thesis
    proof (cases q)
      case Nil
      then show ?thesis using safe Some by simp
    next
      case (Cons item rest)
      define w1 where "w1 = log_call (Process n item) (dequeue n rest w)"
      have s1: "raises_no_TypeError w1" using safe by (simp add: w1_def)
      have unfold: "Plugin_update (Suc k) n w =
          (case process (heap w1 n) item of
             Inl e \<Rightarrow> Some (Some e, w1)
           | Inr result \<Rightarrow>
              and_then (Plugin_output k n result (- 1) w1) (\<lambda>w2.
                if relay (heap w2 n)
                then and_then (Plugin_output k n item (- 1) w2) (Plugin_update k n)
                else Plugin_update k n w2))"
        unfolding w1_def using Some Cons by (simp add: Let_def)
      show ?thesis
      proof (cases "process (heap w1 n) item")
        case (Inl e)
        moreover have "\<forall>m. e \<noteq> TypeError m"
          using s1 Inl by (auto simp: raises_no_TypeError_def)
        ultimately show ?thesis
          unfolding unfold using s1 by simp
      next
        case (Inr result)
        have "no_TypeError (and_then (Plugin_output k n result (- 1) w1) (\<lambda>w2.
               if relay (heap w2 n)
               then and_then (Plugin_output k n item (- 1) w2) (Plugin_update k n)
               else Plugin_update k n w2))"
        proof (intro no_TypeError_and_then)
          show "no_TypeError (Plugin_output k n result (- 1) w1)" using s1 Suc.IH by blast
        next
          fix w2 :: "'a world" assume s2: "raises_no_TypeError w2"
          have "no_TypeError (and_then (Plugin_output k n item (- 1) w2) (Plugin_update k n))"
            using s2 Suc.IH by (intro no_TypeError_and_then) blast+
          moreover have "no_TypeError (Plugin_update k n w2)" using s2 Suc.IH by blast
          ultimately show "no_TypeError (if relay (heap w2 n)
               then and_then (Plugin_output k n item (- 1) w2) (Plugin_update k n)
               else Plugin_update k n w2)" by simp
        qed
        then show ?thesis
          unfolding unfold using Inr by simp
      qed
    qed
  qed
  from inp out all upd show ?case by blast
qed

lemma stream_tokens_no_TypeError:
  "raises_no_TypeError w \<Longrightarrow> stream_tokens C k self ts (cq, w) = Some (Some e, s) \<Longrightarrow> e \<noteq> TypeError m"
proof (induction ts arbitrary: cq w)
  case Nil
  then show ?case by simp
next
  case (Cons token rest)
  let ?cq1 = "cq\<lparr>chat_history := set_reply_text C (reply_text C (chat_history cq) @ token) (chat_history cq)\<rparr>"
  have ok: "no_TypeError (Plugin_output k self (Some (PyStr token)) (- 1) w)"
    using runtime_no_TypeError[OF Cons.prems(1)] by blast
  show ?case
  proof (cases "Plugin_output k self (Some (PyStr token)) (- 1) w")
    case None
    then show ?thesis using Cons.prems(2) by simp
  next
    case (Some p)
    obtain e1 w1 where p: "p = (e1, w1)" by (cases p)
    show ?thesis
    proof (cases e1)
      case None
      have "raises_no_TypeError w1" using ok Some p by simp
      moreover have "stream_tokens C k self rest (?cq1, w1) = Some (Some e, s)"
        using Cons.prems(2) Some p None by (simp add: Let_def)
      ultimately show ?thesis by (rule Cons.IH)
    next
      case (Some e2)
      have "e2 \<noteq> TypeError m" using ok \<open>Plugin_output k self (Some (PyStr token)) (- 1) w = Some p\<close> p Some
        by simp
      moreover have "e = e2"
        using Cons.prems(2) \<open>Plugin_output k self (Some (PyStr token)) (- 1) w = Some p\<close> p Some
        by (simp add: Let_def)
      ultimately show ?thesis by simp
    qed
  qed
qed

lemma choose_history_rejects:
  "\<not> accepted_input inp \<Longrightarrow> choose_history C inp cq = Inl (process_type_error inp)"
  by (auto simp: accepted_input_def choose_history_def split: option.splits pyval.splits)

lemma choose_history_accepts:
  "accepted_input inp \<Longrightarrow> collaborators_raise_no_TypeError C \<Longrightarrow> choose_history C inp cq \<noteq> Inl (TypeError m)"
  by (auto simp: accepted_input_def choose_history_def collaborators_raise_no_TypeError_def
      split: option.splits pyval.splits sum.splits)

text \<open>
  Claim C10. \<open>ChatQuery.process(input)\<close> raises its \<open>TypeError\<close> when the input is
  neither a string, a dict nor a \<open>ChatHistory\<close>, and then the attributes of the plugin
  (its chat history and model among them) and the world are unchanged: the check comes
  before any append or generation. For an input of one of the three types no
  \<open>TypeError\<close> is raised, provided none comes from a collaborator or from the
  \<open>process\<close> method of another plugin.
\<close>

theorem process_TypeError_exactly_on_bad_input:
  "(\<not> accepted_input inp \<longrightarrow>
      ChatQuery_process C k self inp (cq, w) = Some (Inl (process_type_error inp), (cq, w)))
   \<and> (accepted_input inp \<and> collaborators_raise_no_TypeError C \<and> raises_no_TypeError w \<longrightarrow>
      (\<forall>m s. ChatQuery_process C k self inp (cq, w) \<noteq> Some (Inl (TypeError m), s)))"
proof (intro conjI impI allI)
  assume "\<not> accepted_input inp"
  then show "ChatQuery_process C k self inp (cq, w) = Some (Inl (process_type_error inp), (cq, w))"
    by (simp add: ChatQuery_process_def choose_history_rejects)
next
  fix m s
  assume a: "accepted_input inp \<and> collaborators_raise_no_TypeError C \<and> raises_no_TypeError w"
  then have c: "collaborators_raise_no_TypeError C" and sw: "raises_no_TypeError w" by auto
  have ch: "choose_history C inp cq \<noteq> Inl (TypeError m)"
    using a by (simp add: choose_history_accepts)
  have em: "\<And>h. embed_chat C h \<noteq> Inl (TypeError m)"
    and ge: "\<And>lm e kv cfg. generate C lm e kv cfg \<noteq> Inl (TypeError m)"
    and ap: "\<And>role arg h. history_append C role arg h \<noteq> Inl (TypeError m)"
    using c by (auto simp: collaborators_raise_no_TypeError_def)
  have st: "\<And>ts cq' e s'. stream_tokens C k self ts (cq', w) = Some (Some e, s') \<Longrightarrow> e \<noteq> TypeError m"
    using sw by (rule stream_tokens_no_TypeError)
  show "ChatQuery_process C k self inp (cq, w) \<noteq> Some (Inl (TypeError m), s)"
  proof
    assume "ChatQuery_process C k self inp (cq, w) = Some (Inl (TypeError m), s)"
    then show False
      using ch em ge ap st
      by (auto simp: ChatQuery_process_def Let_def split: sum.splits prod.splits if_splits option.splits)
  qed
qed

theorem process_TypeError_exactly_on_bad_input_witness:
  "ChatQuery_process echo_collaborators 3 0 (Some (PyOther ''int'')) (example_query, query_world)
     = Some (Inl (TypeError ''LLMQuery plugin expects inputs of type str, dict, or ChatHistory (was int)''),
             (example_query, query_world))
   \<and> ChatQuery_process echo_collaborators 3 0 (Some (PyStr ''hello'')) (example_query, query_world)
       \<noteq> Some (Inl (TypeError []), (example_query, query_world))
   \<and> (\<exists>s. ChatQuery_process echo_collaborators 3 0 (Some (PyStr ''hello'')) (example_query, query_world)
         = Some (Inr None, s))"
proof -
  note t = process_TypeError_exactly_on_bad_input
  have bad: "\<not> accepted_input (Some (PyOther ''int'') :: (string list, nat) pyval option)"
    by (simp add: accepted_input_def)
  have good: "accepted_input (Some (PyStr ''hello'') :: (string list, nat) pyval option)"
    by (simp add: accepted_input_def)
  have c: "collaborators_raise_no_TypeError echo_collaborators"
    by (simp add: collaborators_raise_no_TypeError_def echo_collaborators_def)
  have w: "raises_no_TypeError query_world"
    by (simp add: raises_no_TypeError_def query_world_def)
  have a: "ChatQuery_process echo_collaborators 3 0 (Some (PyOther ''int'')) (example_query, query_world)
     = Some (Inl (process_type_error (Some (PyOther ''int'') :: (string list, nat) pyval option)),
             (example_query, query_world))"
    using t[of "Some (PyOther ''int'')" echo_collaborators 3 0 example_query query_world] bad by blast
  have b: "ChatQuery_process echo_collaborators 3 0 (Some (PyStr ''hello'')) (example_query, query_world)
       \<noteq> Some (Inl (TypeError []), (example_query, query_world))"
    using t[of "Some (PyStr ''hello'')" echo_collaborators 3 0 example_query query_world] good c w by blast
  have d: "\<exists>s. ChatQuery_process echo_collaborators 3 0 (Some (PyStr ''hello'')) (example_query, query_world)
         = Some (Inr None, s)"
    by (simp add: ChatQuery_process_def choose_history_def echo_collaborators_def Let_def
          eval_nat_numeral query_world_def)
  from a b d show ?thesis by (simp add: process_type_error_def type_of_input_def)
qed

end
